theory Spec2Isabelle
  imports Main "HOL-Library.Sublist" "HOL-Library.List_Lexorder" "HOL-Library.Char_ord"
begin

section \<open>Template merging: the data model\<close>

text \<open>
  The program \<^verbatim>\<open>merge_templates.py\<close> loads one base template and a list of fragment
  templates with PyYAML, merges the four sections \<^verbatim>\<open>Parameters\<close>, \<^verbatim>\<open>Conditions\<close>,
  \<^verbatim>\<open>Resources\<close> and \<^verbatim>\<open>Outputs\<close> of the fragments into a shallow copy of the base, and
  dumps the result.

  Python values are modelled by \<open>pyval\<close>: \<^verbatim>\<open>None\<close>, \<^verbatim>\<open>str\<close>, \<^verbatim>\<open>list\<close>, \<^verbatim>\<open>dict\<close> (an
  association list in insertion order, keys are strings as the annotations
  \<^verbatim>\<open>Dict[str, Any]\<close> say) and the class \<^verbatim>\<open>Tagged\<close> with its fields \<^verbatim>\<open>tag\<close> and
  \<^verbatim>\<open>value\<close>. The documents PyYAML reads and writes are modelled one level below the
  text, as the node graphs its composer hands to the constructor and its representer
  hands to the serializer (\<^verbatim>\<open>ScalarNode\<close>, \<^verbatim>\<open>SequenceNode\<close>, \<^verbatim>\<open>MappingNode\<close>, each
  with its resolved tag). Scanning and emitting text belong to the library and are not
  modelled. Of the library's standard tags the model knows \<^verbatim>\<open>null\<close>, \<^verbatim>\<open>str\<close>, \<^verbatim>\<open>seq\<close>
  and \<^verbatim>\<open>map\<close>; a node with any other tag that does not start with \<^verbatim>\<open>!\<close>, or a
  mapping key that is not a string, constructs to the error \<open>Unmodelled\<close>.

  Anchors and aliases make a node graph that is not a tree: the composer hands out one
  node for an anchored node and all its aliases, and the constructor builds one object
  for that node, so the places of the document that name it hold the very same list,
  dict or \<^verbatim>\<open>Tagged\<close> object. A document is therefore a pair: the list of its shared
  nodes (the nodes that occur at more than one place), and its root; \<open>AliasNode i\<close>
  marks a place that holds shared node \<open>i\<close> (the anchored place and each alias alike).
  On the Python side the shared objects live in a list of their own, and \<open>Ref i\<close> is a
  reference to object \<open>i\<close> of that list; a list, a dict or a \<^verbatim>\<open>Tagged\<close> object that is
  written in place is referred to from that place only. Strings and \<^verbatim>\<open>None\<close> are
  immutable, so an anchored plain scalar is written out at each of its places. A
  document without aliases has no shared nodes and is a tree. A shared node that only
  one place names stands for the same graph as that node written in place.
\<close>

type_synonym path = string

datatype pyval =
    NoneV
  | Str string
  | Lst "pyval list"
  | Dict "(string \<times> pyval) list"
  | Tagged string pyval
  | Ref nat

datatype node =
    ScalarNode string string
  | SequenceNode string "node list"
  | MappingNode string "(node \<times> node) list"
  | AliasNode nat

type_synonym document = "node list \<times> node"
type_synonym objects = "pyval list"

text \<open>
  The exceptions of a run. The three errors the program raises itself are all
  \<^verbatim>\<open>ValueError\<close>s and differ in their message only; \<open>LoadError\<close>,
  \<open>SectionTypeError\<close> and \<open>DuplicateKeyError\<close> below build the three messages.
\<close>

datatype error =
    OSError path
  | ConstructorError
  | Unmodelled
  | ValueError string
  | TypeError
  | KeyError string

definition LoadError :: "path \<Rightarrow> error" where
  "LoadError path = ValueError (path @ '' must contain a YAML mapping'')"

definition SectionTypeError :: "path \<Rightarrow> string \<Rightarrow> error" where
  "SectionTypeError path section =
     ValueError (path @ '' section '' @ section @ '' must be a mapping'')"

definition DuplicateKeyError :: "string \<Rightarrow> string \<Rightarrow> path \<Rightarrow> error" where
  "DuplicateKeyError section key path =
     ValueError (''Duplicate '' @ section @ '' key '' @ key @ '' in '' @ path)"

definition null_tag :: string where "null_tag = ''tag:yaml.org,2002:null''"
definition str_tag :: string where "str_tag = ''tag:yaml.org,2002:str''"
definition seq_tag :: string where "seq_tag = ''tag:yaml.org,2002:seq''"
definition map_tag :: string where "map_tag = ''tag:yaml.org,2002:map''"

section \<open>Python dictionaries and truth values\<close>

text \<open>\<^verbatim>\<open>d[k] = v\<close>: an existing key keeps its position, a new key goes last.\<close>

fun dict_set :: "(string \<times> 'v) list \<Rightarrow> string \<Rightarrow> 'v \<Rightarrow> (string \<times> 'v) list" where
  "dict_set [] k v = [(k, v)]"
| "dict_set ((k', v') # kvs) k v =
     (if k' = k then (k, v) # kvs else (k', v') # dict_set kvs k v)"

text \<open>
  The object a value stands for: the shared object behind a reference, else the value
  itself. The operations below work on objects, so their callers resolve first; for a
  value that is still a reference they answer as for an object of no special kind.
\<close>

fun resolve :: "objects \<Rightarrow> pyval \<Rightarrow> pyval" where
  "resolve objs (Ref a) = objs ! a"
| "resolve objs v = v"

text \<open>The truth value of an object, as \<^verbatim>\<open>or\<close> tests it.\<close>

fun truthy :: "pyval \<Rightarrow> bool" where
  "truthy NoneV = False"
| "truthy (Str s) = (s \<noteq> [])"
| "truthy (Lst xs) = (xs \<noteq> [])"
| "truthy (Dict kvs) = (kvs \<noteq> [])"
| "truthy (Tagged t v) = True"
| "truthy (Ref a) = True"

definition py_or :: "pyval \<Rightarrow> pyval \<Rightarrow> pyval" where
  "py_or a b = (if truthy a then a else b)"

text \<open>
  \<^verbatim>\<open>key in obj\<close> for a string key: membership in a dict, substring of a string,
  element of a list; \<^verbatim>\<open>None\<close> and a \<^verbatim>\<open>Tagged\<close> object are not iterable.
\<close>

fun py_contains :: "pyval \<Rightarrow> string \<Rightarrow> error + bool" where
  "py_contains (Dict kvs) key = Inr (key \<in> set (map fst kvs))"
| "py_contains (Str s) key = Inr (sublist key s)"
| "py_contains (Lst xs) key = Inr (Str key \<in> set xs)"
| "py_contains NoneV key = Inl TypeError"
| "py_contains (Tagged t v) key = Inl TypeError"
| "py_contains (Ref a) key = Inl TypeError"

text \<open>\<^verbatim>\<open>obj[key] = item\<close> for a string key: only a dict supports it.\<close>

fun py_setitem :: "pyval \<Rightarrow> string \<Rightarrow> pyval \<Rightarrow> error + pyval" where
  "py_setitem (Dict kvs) key item = Inr (Dict (dict_set kvs key item))"
| "py_setitem _ key item = Inl TypeError"

section \<open>Loading: the constructor with the hook for custom tags\<close>

text \<open>
  \<open>construct_object\<close> is the library's dispatch on the node's tag: the constructor
  registered for the tag, else the multi-constructor whose prefix \<^verbatim>\<open>!\<close> starts the
  tag, called with the rest of the tag. \<open>construct_tagged\<close> is the program's
  \<^verbatim>\<open>_construct_tagged\<close>; \<open>construct_sequence\<close> and \<open>construct_mapping\<close> are the
  library's loops over a sequence node's children and a mapping node's pairs (the
  second argument of \<open>construct_mapping\<close> is the dict under construction). At a place
  that holds a shared node the constructor hands out the one object built for that
  node: a reference. The last branch of \<^verbatim>\<open>_construct_tagged\<close>, for a node of none of
  the three classes, wraps whatever \<^verbatim>\<open>construct_object\<close> gives.
\<close>

function (sequential) construct_object :: "node \<Rightarrow> error + pyval"
and construct_tagged :: "string \<Rightarrow> node \<Rightarrow> error + pyval"
and construct_sequence :: "node list \<Rightarrow> error + pyval list"
and construct_mapping ::
  "(node \<times> node) list \<Rightarrow> (string \<times> pyval) list \<Rightarrow> error + (string \<times> pyval) list"
where
  "construct_object (ScalarNode t v) =
     (if t = null_tag then Inr NoneV
      else if t = str_tag then Inr (Str v)
      else if t = seq_tag \<or> t = map_tag then Inl ConstructorError
      else if take 1 t = ''!'' then construct_tagged (drop 1 t) (ScalarNode t v)
      else Inl Unmodelled)"
| "construct_object (SequenceNode t ns) =
     (if t = null_tag \<or> t = str_tag \<or> t = map_tag then Inl ConstructorError
      else if t = seq_tag then
        (case construct_sequence ns of Inl e \<Rightarrow> Inl e | Inr xs \<Rightarrow> Inr (Lst xs))
      else if take 1 t = ''!'' then construct_tagged (drop 1 t) (SequenceNode t ns)
      else Inl Unmodelled)"
| "construct_object (MappingNode t ps) =
     (if t = null_tag \<or> t = str_tag \<or> t = seq_tag then Inl ConstructorError
      else if t = map_tag then
        (case construct_mapping ps [] of Inl e \<Rightarrow> Inl e | Inr kvs \<Rightarrow> Inr (Dict kvs))
      else if take 1 t = ''!'' then construct_tagged (drop 1 t) (MappingNode t ps)
      else Inl Unmodelled)"
| "construct_object (AliasNode i) = Inr (Ref i)"
| "construct_tagged tag_suffix (ScalarNode t v) =
     Inr (Tagged (''!'' @ tag_suffix) (Str v))"
| "construct_tagged tag_suffix (SequenceNode t ns) =
     (case construct_sequence ns of Inl e \<Rightarrow> Inl e
      | Inr xs \<Rightarrow> Inr (Tagged (''!'' @ tag_suffix) (Lst xs)))"
| "construct_tagged tag_suffix (MappingNode t ps) =
     (case construct_mapping ps [] of Inl e \<Rightarrow> Inl e
      | Inr kvs \<Rightarrow> Inr (Tagged (''!'' @ tag_suffix) (Dict kvs)))"
| "construct_tagged tag_suffix (AliasNode i) = Inr (Tagged (''!'' @ tag_suffix) (Ref i))"
| "construct_sequence [] = Inr []"
| "construct_sequence (n # ns) =
     (case construct_object n of Inl e \<Rightarrow> Inl e
      | Inr x \<Rightarrow>
          (case construct_sequence ns of Inl e \<Rightarrow> Inl e | Inr xs \<Rightarrow> Inr (x # xs)))"
| "construct_mapping [] mapping = Inr mapping"
| "construct_mapping ((key_node, value_node) # ps) mapping =
     (case construct_object key_node of Inl e \<Rightarrow> Inl e
      | Inr (Str key) \<Rightarrow>
          (case construct_object value_node of Inl e \<Rightarrow> Inl e
           | Inr v \<Rightarrow> construct_mapping ps (dict_set mapping key v))
      | Inr (Lst xs) \<Rightarrow> Inl ConstructorError
      | Inr (Dict kvs) \<Rightarrow> Inl ConstructorError
      | Inr other \<Rightarrow> Inl Unmodelled)"
  by pat_completeness auto
termination
  by (relation "measure (\<lambda>x. case x of
        Inl (Inl n) \<Rightarrow> 2 * size n + 1
      | Inl (Inr (s, n)) \<Rightarrow> 2 * size n
      | Inr (Inl ns) \<Rightarrow> 2 * size_list size ns
      | Inr (Inr (ps, m)) \<Rightarrow> 2 * size_list (size_prod size size) ps)") auto

text \<open>
  The shared objects the model covers. A shared object is a list, a dict or a
  \<^verbatim>\<open>Tagged\<close> object; every reference is to an object of the list (\<open>refs_below n v\<close>
  says that every reference inside \<open>v\<close> is to one of the first \<open>n\<close> shared objects);
  and no object contains itself: following references from object to object, as
  \<open>referred\<close> does one step at a time, comes to an end in fewer steps than there are
  objects. A document in which a node contains itself (an alias inside the node it
  names) loads to the error \<open>Unmodelled\<close>.
\<close>

fun is_object :: "pyval \<Rightarrow> bool" where
  "is_object (Lst xs) = True"
| "is_object (Dict kvs) = True"
| "is_object (Tagged t v) = True"
| "is_object other = False"

fun refs_below :: "nat \<Rightarrow> pyval \<Rightarrow> bool" where
  "refs_below n (Ref a) = (a < n)"
| "refs_below n (Lst xs) = (\<forall>x \<in> set xs. refs_below n x)"
| "refs_below n (Dict kvs) = (\<forall>v \<in> set (map snd kvs). refs_below n v)"
| "refs_below n (Tagged t v) = refs_below n v"
| "refs_below n NoneV = True"
| "refs_below n (Str s) = True"

fun refs_of :: "pyval \<Rightarrow> nat list" where
  "refs_of (Ref a) = [a]"
| "refs_of (Lst xs) = concat (map refs_of xs)"
| "refs_of (Dict kvs) = concat (map refs_of (map snd kvs))"
| "refs_of (Tagged t v) = refs_of v"
| "refs_of NoneV = []"
| "refs_of (Str s) = []"

definition referred :: "objects \<Rightarrow> nat list \<Rightarrow> nat list" where
  "referred objs as = remdups (concat (map (\<lambda>a. refs_of (objs ! a)) as))"

definition shared_ok :: "objects \<Rightarrow> bool" where
  "shared_ok objs =
     (list_all (\<lambda>v. is_object v \<and> refs_below (length objs) v) objs
      \<and> (referred objs ^^ length objs) [0..<length objs] = [])"

text \<open>
  \<^verbatim>\<open>yaml.load(handle, Loader=CfnLoader)\<close>: \<^verbatim>\<open>None\<close> for a stream without a document,
  else the object constructed from the document's root node, together with the objects
  constructed from its shared nodes. The references are into that list of objects.
\<close>

definition yaml_load :: "document option \<Rightarrow> error + pyval \<times> objects" where
  "yaml_load stream =
     (case stream of
        None \<Rightarrow> Inr (NoneV, [])
      | Some (shared, root) \<Rightarrow>
          (case construct_sequence shared of
             Inl e \<Rightarrow> Inl e
           | Inr objs \<Rightarrow>
               (case construct_object root of
                  Inl e \<Rightarrow> Inl e
                | Inr v \<Rightarrow>
                    if shared_ok objs \<and> refs_below (length objs) v then Inr (v, objs)
                    else Inl Unmodelled)))"

text \<open>
  A file system maps a path to the stream stored there: \<open>None\<close> where no file can be
  opened, \<open>Some None\<close> for a file without a document, \<open>Some (Some d)\<close> for a document
  \<open>d\<close>. Text that the library's scanner or composer refuses (malformed text, several
  documents in one stream, an alias without its anchor) is not represented.
\<close>

type_synonym fs = "path \<Rightarrow> document option option"

text \<open>
  \<^verbatim>\<open>_load_yaml\<close> returns the root dict; the model gives its items, and with them the
  shared objects of the document, which the items may refer to.
\<close>

definition load_yaml :: "fs \<Rightarrow> path \<Rightarrow> error + (string \<times> pyval) list \<times> objects" where
  "load_yaml fs path =
     (case fs path of
        None \<Rightarrow> Inl (OSError path)
      | Some stream \<Rightarrow>
          (case yaml_load stream of
             Inl e \<Rightarrow> Inl e
           | Inr (loaded, objs) \<Rightarrow>
               (case py_or (resolve objs loaded) (Dict []) of
                  Dict kvs \<Rightarrow> Inr (kvs, objs)
                | other \<Rightarrow> Inl (LoadError path))))"

section \<open>Dumping: the representer with the hook for Tagged\<close>

text \<open>
  \<open>represent_data\<close> is the library's dispatch on the object's type,
  \<open>represent_tagged\<close> the program's \<^verbatim>\<open>_represent_tagged\<close>, \<open>represent_sequence\<close> and
  \<open>represent_mapping\<close> the library's; the first argument is the dumper's
  \<^verbatim>\<open>sort_keys\<close>, under which \<open>represent_mapping\<close> sorts the items by key. The scalar
  branch of \<^verbatim>\<open>_represent_tagged\<close> writes \<^verbatim>\<open>str(data.value)\<close>: the string itself,
  \<^verbatim>\<open>None\<close> for \<^verbatim>\<open>None\<close>, and for a \<^verbatim>\<open>Tagged\<close> object the default text of an object,
  whose address part is left out here. For a shared object the representer hands out
  the one node it makes for that object: the place gets \<open>AliasNode\<close>. The payload of
  a \<^verbatim>\<open>Tagged\<close> object is built by \<^verbatim>\<open>_construct_tagged\<close> itself from a node of one of
  the three classes, so it is never a reference.
\<close>

function represent_data :: "bool \<Rightarrow> pyval \<Rightarrow> node"
and represent_tagged :: "bool \<Rightarrow> string \<Rightarrow> pyval \<Rightarrow> node"
and represent_sequence :: "bool \<Rightarrow> string \<Rightarrow> pyval list \<Rightarrow> node"
and represent_mapping :: "bool \<Rightarrow> string \<Rightarrow> (string \<times> pyval) list \<Rightarrow> node"
where
  "represent_data sort_keys NoneV = ScalarNode null_tag ''null''"
| "represent_data sort_keys (Str s) = ScalarNode str_tag s"
| "represent_data sort_keys (Lst xs) = represent_sequence sort_keys seq_tag xs"
| "represent_data sort_keys (Dict kvs) = represent_mapping sort_keys map_tag kvs"
| "represent_data sort_keys (Tagged tag v) = represent_tagged sort_keys tag v"
| "represent_data sort_keys (Ref a) = AliasNode a"
| "represent_tagged sort_keys tag (Dict kvs) = represent_mapping sort_keys tag kvs"
| "represent_tagged sort_keys tag (Lst xs) = represent_sequence sort_keys tag xs"
| "represent_tagged sort_keys tag (Str s) = ScalarNode tag s"
| "represent_tagged sort_keys tag NoneV = ScalarNode tag ''None''"
| "represent_tagged sort_keys tag (Tagged t v) = ScalarNode tag ''<Tagged object>''"
| "represent_tagged sort_keys tag (Ref a) = ScalarNode tag ''<object>''"
| "represent_sequence sort_keys tag xs =
     SequenceNode tag (map (represent_data sort_keys) xs)"
| "represent_mapping sort_keys tag kvs =
     MappingNode tag
       (map (\<lambda>(item_key, item_value).
               (represent_data sort_keys (Str item_key), represent_data sort_keys item_value))
            (if sort_keys then sort_key fst kvs else kvs))"
  by pat_completeness auto
termination
proof (relation "measure (\<lambda>x. case x of
        Inl (Inl (sk, v)) \<Rightarrow> 2 * size v + 1
      | Inl (Inr (sk, t, v)) \<Rightarrow> 2 * size v
      | Inr (Inl (sk, t, xs)) \<Rightarrow> 2 * size_list size xs
      | Inr (Inr (sk, t, kvs)) \<Rightarrow> 2 * size_list (size_prod (\<lambda>_. 0) size) kvs + 1)",
    goal_cases)
  case (7 sk t xs x)
  then have "size x < size_list size xs"
    by (induction xs) auto
  then show ?case by simp
next
  case (8 sk t kvs kv k v)
  then have "(k, v) \<in> set kvs" by (auto split: if_splits)
  then have "0 < size_list (size_prod (\<lambda>_. 0) size) kvs"
    by (induction kvs) auto
  then show ?case by simp
next
  case (9 sk t kvs kv k v)
  then have "(k, v) \<in> set kvs" by (auto split: if_splits)
  then have "size v < size_list (size_prod (\<lambda>_. 0) size) kvs"
    by (induction kvs) auto
  then show ?case by simp
qed simp_all

text \<open>
  \<^verbatim>\<open>yaml.dump(data, handle, Dumper=CfnDumper, sort_keys=...)\<close>: the document written,
  the node of \<open>data\<close> as its root and the nodes of the shared objects as its shared
  nodes. A shared node that no place names any more is no part of what a reader of the
  document sees.
\<close>

definition yaml_dump :: "bool \<Rightarrow> objects \<Rightarrow> pyval \<Rightarrow> document" where
  "yaml_dump sort_keys objs data =
     (map (represent_data sort_keys) objs, represent_data sort_keys data)"

section \<open>Merging\<close>

text \<open>
  \<^verbatim>\<open>merged = dict(base)\<close> is a shallow copy: a new top-level dict whose values are the
  very objects the base holds, and \<^verbatim>\<open>dest[section][key] = item\<close> then writes into such
  an object. The values of the top-level keys therefore live in a store: a \<open>heap\<close> is
  the list of these values, an address is an index into it, and a \<open>dict_ref\<close> is a
  top-level dict, from keys to addresses. \<open>allocate\<close> places the values of a freshly
  loaded document in the store; a value that is a reference stays one, so two keys of
  the base that hold the same shared object still do. A state of the run is the list of
  shared objects loaded so far, the store, and the merged dict.
\<close>

type_synonym heap = "pyval list"
type_synonym dict_ref = "(string \<times> nat) list"
type_synonym state = "objects \<times> heap \<times> dict_ref"

definition allocate :: "(string \<times> pyval) list \<Rightarrow> heap \<times> dict_ref" where
  "allocate data = (map snd data, zip (map fst data) [0..<length data])"

text \<open>The dict a \<open>dict_ref\<close> stands for, and \<^verbatim>\<open>d.get(k)\<close> on it.\<close>

definition deref :: "heap \<Rightarrow> dict_ref \<Rightarrow> (string \<times> pyval) list" where
  "deref h d = map (\<lambda>(k, a). (k, h ! a)) d"


text \<open>\<^verbatim>\<open>dest.setdefault(section, {})\<close>: a new empty dict is stored under a missing key.\<close>

definition setdefault :: "state \<Rightarrow> string \<Rightarrow> state" where
  "setdefault st section =
     (case st of (objs, h, dest) \<Rightarrow>
        (case map_of dest section of
           Some a \<Rightarrow> (objs, h, dest)
         | None \<Rightarrow> (objs, h @ [Dict []], dest @ [(section, length h)])))"

text \<open>
  The loop of \<^verbatim>\<open>_merge_section\<close> over \<^verbatim>\<open>value.items()\<close>. The object \<^verbatim>\<open>dest[section]\<close>
  is the shared object when the value under the key is a reference, and then the
  insertion changes that shared object, for every place that holds it. The loop returns
  the state it leaves behind also when it raises.
\<close>

fun insert_items ::
  "state \<Rightarrow> string \<Rightarrow> path \<Rightarrow> (string \<times> pyval) list \<Rightarrow> (error + unit) \<times> state" where
  "insert_items st section path [] = (Inr (), st)"
| "insert_items (objs, h, dest) section path ((key, item) # rest) =
     (case map_of dest section of
        None \<Rightarrow> (Inl (KeyError section), (objs, h, dest))
      | Some a \<Rightarrow>
          (case py_contains (resolve objs (h ! a)) key of
             Inl e \<Rightarrow> (Inl e, (objs, h, dest))
           | Inr True \<Rightarrow> (Inl (DuplicateKeyError section key path), (objs, h, dest))
           | Inr False \<Rightarrow>
               (case py_setitem (resolve objs (h ! a)) key item of
                  Inl e \<Rightarrow> (Inl e, (objs, h, dest))
                | Inr obj \<Rightarrow>
                    (case h ! a of
                       Ref r \<Rightarrow> insert_items (objs[r := obj], h, dest) section path rest
                     | other \<Rightarrow> insert_items (objs, h[a := obj], dest) section path rest))))"

definition merge_section ::
  "state \<Rightarrow> (string \<times> pyval) list \<Rightarrow> string \<Rightarrow> path \<Rightarrow> (error + unit) \<times> state" where
  "merge_section dest src section path =
     (case map_of src section of
        None \<Rightarrow> (Inr (), dest)
      | Some v \<Rightarrow>
          (case resolve (fst dest) v of
             Dict items \<Rightarrow> insert_items (setdefault dest section) section path items
           | other \<Rightarrow> (Inl (SectionTypeError path section), dest)))"

definition SECTIONS :: "string list" where
  "SECTIONS = [''Parameters'', ''Conditions'', ''Resources'', ''Outputs'']"

text \<open>The inner loop of \<^verbatim>\<open>merge_templates\<close>, over the section names.\<close>

fun merge_sections ::
  "state \<Rightarrow> (string \<times> pyval) list \<Rightarrow> path \<Rightarrow> string list \<Rightarrow> (error + unit) \<times> state" where
  "merge_sections merged data fragment [] = (Inr (), merged)"
| "merge_sections merged data fragment (section # rest) =
     (case merge_section merged data section fragment of
        (Inl e, merged') \<Rightarrow> (Inl e, merged')
      | (Inr u, merged') \<Rightarrow> merge_sections merged' data fragment rest)"

text \<open>
  The objects of a document loaded later come after the shared objects already there:
  \<open>relocate n\<close> moves every reference up by \<open>n\<close>.
\<close>

primrec relocate :: "nat \<Rightarrow> pyval \<Rightarrow> pyval" where
  "relocate n NoneV = NoneV"
| "relocate n (Str s) = Str s"
| "relocate n (Lst xs) = Lst (map (relocate n) xs)"
| "relocate n (Dict kvs) = Dict (map (map_prod id (relocate n)) kvs)"
| "relocate n (Tagged t v) = Tagged t (relocate n v)"
| "relocate n (Ref a) = Ref (n + a)"

text \<open>The outer loop, over the fragment paths; each fragment is loaded when its turn comes.\<close>

fun merge_fragments :: "fs \<Rightarrow> state \<Rightarrow> path list \<Rightarrow> (error + unit) \<times> state" where
  "merge_fragments fs merged [] = (Inr (), merged)"
| "merge_fragments fs (objs, h, dest) (fragment # rest) =
     (case load_yaml fs fragment of
        Inl e \<Rightarrow> (Inl e, (objs, h, dest))
      | Inr (data, new) \<Rightarrow>
          (case merge_sections
                  (objs @ map (relocate (length objs)) new, h, dest)
                  (map (map_prod id (relocate (length objs))) data) fragment SECTIONS of
             (Inl e, merged') \<Rightarrow> (Inl e, merged')
           | (Inr u, merged') \<Rightarrow> merge_fragments fs merged' rest))"

text \<open>
  \<^verbatim>\<open>merge_templates\<close>: the result of the run and the file system it leaves. The output
  file is opened only after the loops; opening it for writing is taken to succeed.
\<close>

definition merge_templates :: "fs \<Rightarrow> path \<Rightarrow> path list \<Rightarrow> path \<Rightarrow> (error + unit) \<times> fs" where
  "merge_templates fs base_path fragment_paths out_path =
     (case load_yaml fs base_path of
        Inl e \<Rightarrow> (Inl e, fs)
      | Inr (base, objs) \<Rightarrow>
          (case merge_fragments fs (objs, allocate base) fragment_paths of
             (Inl e, st) \<Rightarrow> (Inl e, fs)
           | (Inr u, (objs', h, merged)) \<Rightarrow>
               (Inr (), fs(out_path \<mapsto> Some (yaml_dump False objs' (Dict (deref h merged)))))))"

section \<open>Observations used in the statements\<close>





text \<open>
  The objects the loader can return: the keys of every dict are distinct, and a Tagged
  object has a tag that starts with \<^verbatim>\<open>!\<close> and a payload that is a string, a list or a
  dict written in place (never \<^verbatim>\<open>None\<close>, never directly another Tagged object or a
  reference).
\<close>

fun well_formed :: "pyval \<Rightarrow> bool" where
  "well_formed NoneV = True"
| "well_formed (Str s) = True"
| "well_formed (Lst xs) = (\<forall>x \<in> set xs. well_formed x)"
| "well_formed (Dict kvs) = (distinct (map fst kvs) \<and> (\<forall>v \<in> set (map snd kvs). well_formed v))"
| "well_formed (Tagged t v) =
     (take 1 t = ''!''
      \<and> (case v of NoneV \<Rightarrow> False | Tagged t' v' \<Rightarrow> False | Ref a \<Rightarrow> False | other \<Rightarrow> True)
      \<and> well_formed v)"
| "well_formed (Ref a) = True"


text \<open>A value without any reference in it.\<close>

definition plain :: "pyval \<Rightarrow> bool" where
  "plain v = refs_below 0 v"


text \<open>The pairs of a mapping node, and the value node under a string key.\<close>

fun node_items :: "node \<Rightarrow> (node \<times> node) list" where
  "node_items (MappingNode t ps) = ps"
| "node_items other = []"


text \<open>
  Example documents, on which the theorems below are instantiated: plain string scalars
  and mappings with string keys, and a file system holding a base and fragments, all
  without anchors.
\<close>

definition str_node :: "string \<Rightarrow> node" where
  "str_node s = ScalarNode str_tag s"

definition map_node :: "(string \<times> node) list \<Rightarrow> node" where
  "map_node kvs = MappingNode map_tag (map (\<lambda>(k, v). (str_node k, v)) kvs)"

definition example_fs :: fs where
  "example_fs = (\<lambda>p. None)
     (''base.yaml'' \<mapsto> Some ([], map_node
        [(''Description'', str_node ''demo''),
         (''Resources'', map_node [(''A'', map_node [(''Type'', str_node ''X'')])])]),
      ''f1.yaml'' \<mapsto> Some ([], map_node
        [(''Resources'', map_node [(''Bk'', map_node [(''Type'', str_node ''Y'')])])]),
      ''f2.yaml'' \<mapsto> Some ([], map_node
        [(''Outputs'', map_node [(''O1'', map_node [(''Value'', ScalarNode ''!Ref'' ''Bk'')])])]),
      ''f3.yaml'' \<mapsto> Some ([], map_node
        [(''Resources'', map_node [(''A'', map_node [(''Type'', str_node ''Z'')])])]),
      ''f4.yaml'' \<mapsto> Some ([], map_node [(''Parameters'', str_node ''not-a-mapping'')]),
      ''f5.yaml'' \<mapsto> Some ([], map_node
        [(''Resources'', map_node [(''Zed'', str_node ''z''), (''Mid'', str_node ''m'')])]),
      ''f1m.yaml'' \<mapsto> Some ([], map_node
        [(''Metadata'', str_node ''ignored''),
         (''Resources'', map_node [(''Bk'', map_node [(''Type'', str_node ''Y'')])])]))"




text \<open>
  Documents with an anchor and an alias: in \<^verbatim>\<open>base.yaml\<close> the sections \<^verbatim>\<open>Resources\<close> and
  \<^verbatim>\<open>Outputs\<close> are one mapping (\<^verbatim>\<open>Resources: &r {A: a}\<close>, \<^verbatim>\<open>Outputs: *r\<close>), in
  \<^verbatim>\<open>meta.yaml\<close> the key \<^verbatim>\<open>Metadata\<close> and the section \<^verbatim>\<open>Resources\<close> are, in
  \<^verbatim>\<open>params.yaml\<close> the sections \<^verbatim>\<open>Parameters\<close> and \<^verbatim>\<open>Resources\<close>, in \<^verbatim>\<open>conds.yaml\<close> the
  sections \<^verbatim>\<open>Parameters\<close> and \<^verbatim>\<open>Conditions\<close>. The fragments have no anchors.
\<close>

definition shared_fs :: fs where
  "shared_fs = (\<lambda>p. None)
     (''base.yaml'' \<mapsto> Some ([map_node [(''A'', str_node ''a'')]],
        map_node [(''Resources'', AliasNode 0), (''Outputs'', AliasNode 0)]),
      ''meta.yaml'' \<mapsto> Some ([map_node [(''A'', str_node ''a'')]],
        map_node [(''Metadata'', AliasNode 0), (''Resources'', AliasNode 0)]),
      ''params.yaml'' \<mapsto> Some ([map_node [(''A'', str_node ''a'')]],
        map_node [(''Parameters'', AliasNode 0), (''Resources'', AliasNode 0)]),
      ''conds.yaml'' \<mapsto> Some ([map_node [(''A'', str_node ''a'')]],
        map_node [(''Parameters'', AliasNode 0), (''Conditions'', AliasNode 0)]),
      ''both.yaml'' \<mapsto> Some ([], map_node
        [(''Resources'', map_node [(''B'', str_node ''b'')]),
         (''Outputs'', map_node [(''B'', str_node ''b2'')])]),
      ''res.yaml'' \<mapsto> Some ([], map_node [(''Resources'', map_node [(''B'', str_node ''b'')])]),
      ''f1.yaml'' \<mapsto> Some ([], map_node
        [(''Resources'', map_node [(''B'', str_node ''b'')]),
         (''Outputs'', map_node [(''O'', str_node ''o'')])]),
      ''f2.yaml'' \<mapsto> Some ([], map_node [(''Resources'', map_node [(''C'', str_node ''c'')])]),
      ''dup.yaml'' \<mapsto> Some ([], map_node
        [(''Parameters'', map_node [(''B'', str_node ''b'')]),
         (''Resources'', map_node [(''B'', str_node ''b2''), (''A'', str_node ''a2'')])]),
      ''text.yaml'' \<mapsto> Some ([], map_node
        [(''Parameters'', map_node [(''B'', str_node ''b'')]),
         (''Conditions'', map_node [(''B'', str_node ''b2'')]),
         (''Resources'', str_node ''text'')]))"


text \<open>
  The tag and the shape of a node. A place that holds a shared node has no tag of its
  own: the tag is the shared node's.
\<close>

fun node_tag :: "node \<Rightarrow> string" where
  "node_tag (ScalarNode t v) = t"
| "node_tag (SequenceNode t ns) = t"
| "node_tag (MappingNode t ps) = t"
| "node_tag (AliasNode i) = []"

datatype kind = ScalarKind | SequenceKind | MappingKind | AliasKind

fun node_kind :: "node \<Rightarrow> kind" where
  "node_kind (ScalarNode t v) = ScalarKind"
| "node_kind (SequenceNode t ns) = SequenceKind"
| "node_kind (MappingNode t ps) = MappingKind"
| "node_kind (AliasNode i) = AliasKind"

text \<open>
  A document with custom tags on a scalar, a sequence and a mapping, nested, and with one
  tagged node that is anchored and named twice
  (\<^verbatim>\<open>Bucket: &b !Sub x-y\<close>, \<^verbatim>\<open>Again: *b\<close>).
\<close>

definition example_tagged_fs :: fs where
  "example_tagged_fs = (\<lambda>p. None)
     (''tagged.yaml'' \<mapsto> Some ([ScalarNode ''!Sub'' ''x-y''], map_node
        [(''Outputs'', map_node
           [(''Url'', SequenceNode ''!Join''
               [str_node '''',
                SequenceNode seq_tag
                  [str_node ''https://'',
                   ScalarNode ''!Ref'' ''Bucket'',
                   MappingNode ''!GetAtt'' [(str_node ''Name'', ScalarNode ''!Sub'' ''x-y'')]]]),
            (''Bucket'', AliasNode 0),
            (''Again'', AliasNode 0)])]))"

definition example_tagged :: "(string \<times> pyval) list" where
  "example_tagged =
     [(''Outputs'', Dict
        [(''Url'', Tagged ''!Join''
            (Lst [Str '''',
                  Lst [Str ''https://'',
                       Tagged ''!Ref'' (Str ''Bucket''),
                       Tagged ''!GetAtt'' (Dict [(''Name'', Tagged ''!Sub'' (Str ''x-y''))])]])),
         (''Bucket'', Ref 0),
         (''Again'', Ref 0)])]"



text \<open>A base whose \<open>Parameters\<close> section is a string.\<close>

definition unchecked_fs :: fs where
  "unchecked_fs = (\<lambda>p. None)
     (''base.yaml'' \<mapsto> Some ([], map_node
        [(''Parameters'', str_node ''oops''),
         (''Resources'', map_node [(''A'', str_node ''a'')])]),
      ''f.yaml'' \<mapsto> Some ([], map_node [(''Resources'', map_node [(''B'', str_node ''b'')])]),
      ''g.yaml'' \<mapsto> Some ([], map_node [(''Parameters'', map_node [(''x'', str_node ''v'')])]),
      ''h.yaml'' \<mapsto> Some ([], map_node [(''Parameters'', map_node [(''oo'', str_node ''v'')])]))"

text \<open>Files whose root is not a mapping.\<close>

definition falsy_fs :: fs where
  "falsy_fs = (\<lambda>p. None)
     (''empty.yaml'' \<mapsto> None,
      ''list.yaml'' \<mapsto> Some ([], SequenceNode seq_tag []),
      ''string.yaml'' \<mapsto> Some ([], ScalarNode str_tag []),
      ''null.yaml'' \<mapsto> Some ([], ScalarNode null_tag ''~''),
      ''items.yaml'' \<mapsto> Some ([], SequenceNode seq_tag [str_node ''x'']),
      ''text.yaml'' \<mapsto> Some ([], ScalarNode str_tag ''x''))"







section \<open>The loader returns well-formed objects, and dumping then loading gives them back\<close>

lemma tags_distinct [simp]:
  "null_tag \<noteq> str_tag" "null_tag \<noteq> seq_tag" "null_tag \<noteq> map_tag"
  "str_tag \<noteq> null_tag" "str_tag \<noteq> seq_tag" "str_tag \<noteq> map_tag"
  "seq_tag \<noteq> null_tag" "seq_tag \<noteq> str_tag" "seq_tag \<noteq> map_tag"
  "map_tag \<noteq> null_tag" "map_tag \<noteq> str_tag" "map_tag \<noteq> seq_tag"
  by (simp_all add: null_tag_def str_tag_def seq_tag_def map_tag_def)

lemma custom_tag_not_standard:
  assumes "take 1 t = ''!''"
  shows "t \<noteq> null_tag" "t \<noteq> str_tag" "t \<noteq> seq_tag" "t \<noteq> map_tag"
  using assms by (auto simp: null_tag_def str_tag_def seq_tag_def map_tag_def)

lemma custom_tag_split [simp]: "take (Suc 0) t = ''!'' \<Longrightarrow> CHR ''!'' # drop (Suc 0) t = t"
  by (cases t) auto

lemma dict_set_fresh: "k \<notin> fst ` set kvs \<Longrightarrow> dict_set kvs k v = kvs @ [(k, v)]"
  by (induction kvs) auto

lemma dict_set_keys: "fst ` set (dict_set kvs k v) = insert k (fst ` set kvs)"
proof (induction kvs)
  case Nil
  show ?case by simp
next
  case (Cons a kvs)
  obtain k' v' where "a = (k', v')" by (cases a)
  then show ?case using Cons by (cases "k' = k") auto
qed

lemma dict_set_distinct: "distinct (map fst kvs) \<Longrightarrow> distinct (map fst (dict_set kvs k v))"
  by (induction kvs) (auto simp: dict_set_keys)

lemma dict_set_values: "snd ` set (dict_set kvs k v) \<subseteq> insert v (snd ` set kvs)"
proof (induction kvs)
  case Nil
  show ?case by simp
next
  case (Cons a kvs)
  obtain k' v' where "a = (k', v')" by (cases a)
  then show ?case using Cons by (cases "k' = k") auto
qed

lemma construct_well_formed_aux:
  "(\<forall>v. construct_object n = Inr v \<longrightarrow> well_formed v)"
  "(\<forall>v. (\<forall>i. n \<noteq> AliasNode i) \<longrightarrow> construct_tagged sfx n = Inr v \<longrightarrow> well_formed v)"
  "(\<forall>xs. construct_sequence ns = Inr xs \<longrightarrow> (\<forall>x \<in> set xs. well_formed x))"
  "(\<forall>kvs. distinct (map fst acc) \<and> (\<forall>v \<in> set (map snd acc). well_formed v) \<longrightarrow>
      construct_mapping ps acc = Inr kvs \<longrightarrow>
      distinct (map fst kvs) \<and> (\<forall>v \<in> set (map snd kvs). well_formed v))"
proof (induction n and sfx n and ns and ps acc rule: construct_object_construct_tagged_construct_sequence_construct_mapping.induct)
  case (12 key_node value_node ps mapping)
  show ?case
  proof (intro allI impI)
    fix kvs
    assume acc: "distinct (map fst mapping) \<and> (\<forall>v\<in>set (map snd mapping). well_formed v)"
      and run: "construct_mapping ((key_node, value_node) # ps) mapping = Inr kvs"
    from run obtain key v where k: "construct_object key_node = Inr (Str key)"
      and v: "construct_object value_node = Inr v"
      and rest: "construct_mapping ps (dict_set mapping key v) = Inr kvs"
      by (auto split: sum.splits pyval.splits)
    have wv: "well_formed v" using 12(2)[OF k] v by simp
    have "distinct (map fst (dict_set mapping key v))" using acc by (simp add: dict_set_distinct)
    moreover have "\<forall>x\<in>set (map snd (dict_set mapping key v)). well_formed x"
      using acc wv dict_set_values[of mapping key v] by fastforce
    ultimately show "distinct (map fst kvs) \<and> (\<forall>v\<in>set (map snd kvs). well_formed v)"
      using 12(3)[OF k refl v] rest by blast
  qed
qed (auto split: sum.splits if_splits)

lemma construct_object_well_formed: "construct_object n = Inr v \<Longrightarrow> well_formed v"
  using construct_well_formed_aux(1) by blast

lemma construct_mapping_represent:
  assumes "\<And>v. v \<in> set (map snd kvs) \<Longrightarrow> construct_object (represent_data False v) = Inr v"
    and "distinct (map fst (acc @ kvs))"
  shows "construct_mapping
           (map (\<lambda>(k, v). (represent_data False (Str k), represent_data False v)) kvs) acc
         = Inr (acc @ kvs)"
  using assms
proof (induction kvs arbitrary: acc)
  case Nil
  then show ?case by simp
next
  case (Cons kv kvs)
  obtain k v where kv: "kv = (k, v)" by (cases kv)
  have fresh: "k \<notin> fst ` set acc" using Cons.prems(2) kv by auto
  have v: "construct_object (represent_data False v) = Inr v" using Cons.prems(1) kv by simp
  have "construct_mapping
           (map (\<lambda>(k, v). (represent_data False (Str k), represent_data False v)) kvs) (acc @ [(k, v)])
         = Inr ((acc @ [(k, v)]) @ kvs)"
    using Cons.prems kv by (intro Cons.IH) auto
  then show ?case using kv v fresh by (simp add: dict_set_fresh)
qed

lemma construct_sequence_represent:
  assumes "\<And>x. x \<in> set xs \<Longrightarrow> construct_object (represent_data False x) = Inr x"
  shows "construct_sequence (map (represent_data False) xs) = Inr xs"
  using assms by (induction xs) auto

lemma construct_represent:
  "well_formed v \<Longrightarrow> construct_object (represent_data False v) = Inr v"
proof (induction v)
  case NoneV
  then show ?case by simp
next
  case (Str s)
  then show ?case by simp
next
  case (Lst xs)
  then have "construct_sequence (map (represent_data False) xs) = Inr xs"
    by (intro construct_sequence_represent) auto
  then show ?case by simp
next
  case (Dict kvs)
  then have "construct_mapping
           (map (\<lambda>(k, v). (represent_data False (Str k), represent_data False v)) kvs) []
         = Inr ([] @ kvs)"
    by (intro construct_mapping_represent) (auto simp: snds.simps)
  then show ?case by simp
next
  case (Ref a)
  then show ?case by simp
next
  case (Tagged t v)
  then have t: "take 1 t = ''!''" and wv: "well_formed v" by simp_all
  note nstd = custom_tag_not_standard[OF t]
  show ?case
  proof (cases v)
    case (Str s)
    then show ?thesis using t nstd by simp
  next
    case (Lst xs)
    have "construct_object (represent_data False (Lst xs)) = Inr (Lst xs)"
      using Tagged.IH wv Lst by simp
    then have "construct_sequence (map (represent_data False) xs) = Inr xs"
      by (simp split: sum.splits)
    then show ?thesis using Lst t nstd by simp
  next
    case (Dict kvs)
    have "construct_object (represent_data False (Dict kvs)) = Inr (Dict kvs)"
      using Tagged.IH wv Dict by simp
    then have "construct_mapping
           (map (\<lambda>(k, v). (represent_data False (Str k), represent_data False v)) kvs) [] = Inr kvs"
      by (simp split: sum.splits)
    then show ?thesis using Dict t nstd by simp
  qed (use Tagged.prems in auto)
qed

section \<open>The store\<close>


lemma plain_not_ref [simp]: "\<not> plain (Ref r)"
  by (simp add: plain_def)

lemma refs_below_0_relocate: "refs_below 0 v \<Longrightarrow> relocate n v = v"
proof (induction v)
  case (Lst xs)
  then show ?case by (auto intro: map_idI)
next
  case (Dict kvs)
  have "map_prod id (relocate n) kv = kv" if "kv \<in> set kvs" for kv
  proof -
    obtain k v where kv: "kv = (k, v)" by (cases kv)
    then have "v \<in> snd ` set kvs" using that by force
    then have "relocate n v = v" using Dict kv that by (auto simp: snds.simps)
    then show ?thesis using kv by simp
  qed
  then show ?case by (auto intro: map_idI)
qed auto

lemma plain_relocate: "plain v \<Longrightarrow> relocate n v = v"
  unfolding plain_def by (rule refs_below_0_relocate)




lemma keys_deref: "map fst (deref h d) = map fst d"
  by (induction d) (auto simp: deref_def)

lemma deref_allocate: "case allocate B of (h, d) \<Rightarrow> deref h d = B"
  by (auto simp: allocate_def deref_def intro!: nth_equalityI)














section \<open>One section\<close>










section \<open>What the loader returns\<close>

lemma refs_below_mono: "refs_below m v \<Longrightarrow> m \<le> n \<Longrightarrow> refs_below n v"
  by (induction v) auto

lemma shared_ok_nth:
  "shared_ok objs \<Longrightarrow> i < length objs \<Longrightarrow> is_object (objs ! i) \<and> refs_below (length objs) (objs ! i)"
  by (simp add: shared_ok_def list_all_length)

lemma yaml_load_facts:
  assumes "yaml_load stream = Inr (v, objs)"
  shows "well_formed v" and "\<And>x. x \<in> set objs \<Longrightarrow> well_formed x"
    and "shared_ok objs" and "refs_below (length objs) v"
proof -
  show "well_formed v"
    using assms construct_object_well_formed
    by (auto simp: yaml_load_def split: option.splits sum.splits if_splits)
  show "\<And>x. x \<in> set objs \<Longrightarrow> well_formed x"
    using assms construct_well_formed_aux(3)
    by (auto simp: yaml_load_def split: option.splits sum.splits if_splits)
  show "shared_ok objs" and "refs_below (length objs) v"
    using assms
    by (auto simp: yaml_load_def shared_ok_def split: option.splits sum.splits if_splits)
qed

text \<open>
  The root the loader returns: the loaded object, or the shared object it refers to, is
  the dict of the items, unless it is false and the items are none.
\<close>

lemma load_yaml_cases:
  assumes "load_yaml fs p = Inr (B, objs)"
  obtains stream v where "fs p = Some stream" "yaml_load stream = Inr (v, objs)"
    "resolve objs v = Dict B \<or> (\<not> truthy (resolve objs v) \<and> B = [])"
  using assms
  by (auto simp: load_yaml_def py_or_def split: option.splits sum.splits pyval.splits if_splits)

lemma load_yaml_well_formed:
  assumes "load_yaml fs p = Inr (B, objs)"
  shows "well_formed (Dict B)"
proof -
  from assms obtain stream v where l: "yaml_load stream = Inr (v, objs)"
    and r: "resolve objs v = Dict B \<or> (\<not> truthy (resolve objs v) \<and> B = [])"
    by (rule load_yaml_cases)
  note F = yaml_load_facts[OF l]
  have "well_formed (resolve objs v)"
  proof (cases v)
    case (Ref a)
    then have "a < length objs" using F(4) by simp
    then show ?thesis using Ref F(2) by simp
  qed (use F(1) in auto)
  then show ?thesis using r by (elim disjE) simp_all
qed

lemma load_yaml_refs:
  assumes "load_yaml fs p = Inr (B, objs)"
  shows "refs_below (length objs) (Dict B)"
proof -
  from assms obtain stream v where l: "yaml_load stream = Inr (v, objs)"
    and r: "resolve objs v = Dict B \<or> (\<not> truthy (resolve objs v) \<and> B = [])"
    by (rule load_yaml_cases)
  note F = yaml_load_facts[OF l]
  have "refs_below (length objs) (resolve objs v)"
  proof (cases v)
    case (Ref a)
    then have a: "a < length objs" using F(4) by simp
    then show ?thesis using Ref shared_ok_nth[OF F(3) a] by simp
  qed (use F(4) in auto)
  then show ?thesis using r by (elim disjE) simp_all
qed

lemma load_yaml_objects:
  assumes "load_yaml fs p = Inr (B, objs)"
  shows "shared_ok objs" and "\<And>x. x \<in> set objs \<Longrightarrow> well_formed x"
proof -
  from assms obtain stream v where l: "yaml_load stream = Inr (v, objs)"
    by (rule load_yaml_cases)
  show "shared_ok objs" and "\<And>x. x \<in> set objs \<Longrightarrow> well_formed x"
    using yaml_load_facts[OF l] by auto
qed



section \<open>Runs without a collision\<close>





section \<open>Runs in general\<close>












section \<open>Whole runs\<close>


text \<open>
  What the loader does with the root: a false root of any kind becomes the empty
  mapping, a true root must be a dict.
\<close>

lemma load_yaml_root:
  assumes "fs p = Some stream" and "yaml_load stream = Inr (v, objs)"
  shows "load_yaml fs p =
           (if truthy (resolve objs v)
            then (case resolve objs v of Dict kvs \<Rightarrow> Inr (kvs, objs) | other \<Rightarrow> Inl (LoadError p))
            else Inr ([], objs))"
  using assms by (simp add: load_yaml_def py_or_def)






text \<open>The emitted mapping node keeps the order of the dict when \<open>sort_keys\<close> is off.\<close>

lemma node_items_represent_unsorted:
  "node_items (represent_data False (Dict items))
     = map (\<lambda>(k, v). (ScalarNode str_tag k, represent_data False v)) items"
  by simp





section \<open>The claims\<close>




section \<open>Runs on trees, and loading what was dumped\<close>


text \<open>Loading what the dumper writes for a loaded document gives the document back.\<close>

lemma load_dumped:
  assumes "load_yaml fs p = Inr (B, objs)"
  shows "load_yaml (fs'(q \<mapsto> Some (yaml_dump False objs (Dict B)))) q = Inr (B, objs)"
proof -
  have root: "construct_object (represent_data False (Dict B)) = Inr (Dict B)"
    using load_yaml_well_formed[OF assms] by (rule construct_represent)
  have shared: "construct_sequence (map (represent_data False) objs) = Inr objs"
    using load_yaml_objects(2)[OF assms] by (intro construct_sequence_represent construct_represent)
  have "yaml_load (Some (yaml_dump False objs (Dict B))) = Inr (Dict B, objs)"
    unfolding yaml_load_def yaml_dump_def
    using load_yaml_objects(1)[OF assms] load_yaml_refs[OF assms]
    by (simp only: option.case prod.case root shared sum.case if_True simp_thms)
  then show ?thesis
    by (cases B) (simp_all add: load_yaml_def py_or_def)
qed




text \<open>With \<open>sort_keys\<close> on, the dumper would have reordered that section.\<close>

lemma dump_sorts_when_asked:
  "map fst (node_items (snd (yaml_dump True [] (Dict [(''Zed'', Str ''z''), (''Mid'', Str ''m'')]))))
     = [str_node ''Mid'', str_node ''Zed'']"
  by code_simp




text \<open>
  Claim C8 (failure atomicity). A run that ends in an error, whichever it is and
  wherever it is raised, leaves the file system as it found it: the output file is
  opened, and the dumper called, only after both loops have finished.
\<close>

theorem failure_atomicity:
  assumes "fst (merge_templates fs base_path fragment_paths out_path) = Inl e"
  shows "snd (merge_templates fs base_path fragment_paths out_path) = fs"
  using assms
  by (auto simp: merge_templates_def split: sum.splits prod.splits)

theorem failure_atomicity_witness:
  "fst (merge_templates example_fs ''base.yaml'' [''f1.yaml'', ''f3.yaml''] ''out.yaml'')
     = Inl (DuplicateKeyError ''Resources'' ''A'' ''f3.yaml'')
   \<and> snd (merge_templates example_fs ''base.yaml'' [''f1.yaml'', ''f3.yaml''] ''out.yaml'')
     = example_fs"
proof -
  have e: "fst (merge_templates example_fs ''base.yaml'' [''f1.yaml'', ''f3.yaml''] ''out.yaml'')
     = Inl (DuplicateKeyError ''Resources'' ''A'' ''f3.yaml'')" by code_simp
  from failure_atomicity[OF e] e show ?thesis by simp
qed

text \<open>
  Claim C9 (identity on an empty fragment list). With no fragments the run succeeds, the
  document handed to the dumper is the loaded base itself, and loading the document
  written gives back what loading the base gave: the same keys in the same order, each
  with the same value, tags included, and the same shared objects.
\<close>

theorem identity_on_empty_fragments:
  assumes "load_yaml fs base_path = Inr (B, objs)"
  shows "\<exists>fs'. merge_templates fs base_path [] out_path = (Inr (), fs')
           \<and> fs' = fs(out_path \<mapsto> Some (yaml_dump False objs (Dict B)))
           \<and> load_yaml fs' out_path = Inr (B, objs)"
proof -
  have "merge_templates fs base_path [] out_path
           = (Inr (), fs(out_path \<mapsto> Some (yaml_dump False objs (Dict B))))"
    using assms deref_allocate[of B]
    by (auto simp: merge_templates_def split: prod.splits)
  then show ?thesis using load_dumped[OF assms, of fs out_path] by simp
qed

theorem identity_on_empty_fragments_witness:
  "\<exists>fs'. merge_templates shared_fs ''meta.yaml'' [] ''out.yaml'' = (Inr (), fs')
      \<and> fs' = shared_fs(''out.yaml'' \<mapsto> Some (yaml_dump False [Dict [(''A'', Str ''a'')]]
                  (Dict [(''Metadata'', Ref 0), (''Resources'', Ref 0)])))
      \<and> load_yaml fs' ''out.yaml''
          = Inr ([(''Metadata'', Ref 0), (''Resources'', Ref 0)], [Dict [(''A'', Str ''a'')]])"
proof (rule identity_on_empty_fragments)
  show "load_yaml shared_fs ''meta.yaml''
          = Inr ([(''Metadata'', Ref 0), (''Resources'', Ref 0)], [Dict [(''A'', Str ''a'')]])"
    by code_simp
qed

lemma construct_custom_tag:
  assumes "take 1 (node_tag n) = ''!''" and "construct_object n = Inr v"
  shows "\<exists>payload. v = Tagged (node_tag n) payload
           \<and> (case node_kind n of
                 ScalarKind \<Rightarrow> (\<exists>s. payload = Str s)
               | SequenceKind \<Rightarrow> (\<exists>xs. payload = Lst xs)
               | MappingKind \<Rightarrow> (\<exists>kvs. payload = Dict kvs)
               | AliasKind \<Rightarrow> False)"
proof (cases n)
  case (ScalarNode t s)
  then show ?thesis using assms custom_tag_not_standard[of t] by auto
next
  case (SequenceNode t ns)
  then show ?thesis using assms custom_tag_not_standard[of t] by (auto split: sum.splits)
next
  case (MappingNode t ps)
  then show ?thesis using assms custom_tag_not_standard[of t] by (auto split: sum.splits)
next
  case (AliasNode i)
  then show ?thesis using assms by simp
qed

text \<open>
  Claim C6 (tag round trip). Loading the base, merging it with no fragments, dumping
  and loading what was written gives back the document first loaded, so every Tagged
  object in it, at any depth, written in place or shared, comes back with its tag and
  its payload. Node by node: a node with a custom tag loads as a Tagged object with
  exactly that tag and a payload of the node's shape; dumping that object gives a node
  with the same tag and shape, and loading it again gives the same object.
\<close>

theorem tag_round_trip:
  assumes "load_yaml fs base_path = Inr (B, objs)"
  shows "(\<exists>fs'. merge_templates fs base_path [] out_path = (Inr (), fs')
            \<and> load_yaml fs' out_path = Inr (B, objs))
       \<and> (\<forall>n v. take 1 (node_tag n) = ''!'' \<and> construct_object n = Inr v \<longrightarrow>
            (\<exists>payload. v = Tagged (node_tag n) payload)
            \<and> node_tag (represent_data False v) = node_tag n
            \<and> node_kind (represent_data False v) = node_kind n
            \<and> construct_object (represent_data False v) = Inr v)"
proof (intro conjI allI impI)
  have "merge_templates fs base_path [] out_path
           = (Inr (), fs(out_path \<mapsto> Some (yaml_dump False objs (Dict B))))"
    using assms deref_allocate[of B] by (auto simp: merge_templates_def split: prod.splits)
  then show "\<exists>fs'. merge_templates fs base_path [] out_path = (Inr (), fs')
            \<and> load_yaml fs' out_path = Inr (B, objs)"
    using load_dumped[OF assms] by simp
next
  fix n v
  assume a: "take 1 (node_tag n) = ''!'' \<and> construct_object n = Inr v"
  then obtain payload where v: "v = Tagged (node_tag n) payload"
    and shape: "case node_kind n of
                 ScalarKind \<Rightarrow> (\<exists>s. payload = Str s)
               | SequenceKind \<Rightarrow> (\<exists>xs. payload = Lst xs)
               | MappingKind \<Rightarrow> (\<exists>kvs. payload = Dict kvs)
               | AliasKind \<Rightarrow> False"
    using construct_custom_tag by blast
  show "\<exists>payload. v = Tagged (node_tag n) payload" using v by blast
  show "node_tag (represent_data False v) = node_tag n"
    using v shape by (cases "node_kind n") auto
  show "node_kind (represent_data False v) = node_kind n"
    using v shape by (cases "node_kind n") auto
  have "well_formed v" using a construct_object_well_formed by blast
  then show "construct_object (represent_data False v) = Inr v"
    by (rule construct_represent)
qed

theorem tag_round_trip_witness:
  "load_yaml example_tagged_fs ''tagged.yaml''
     = Inr (example_tagged, [Tagged ''!Sub'' (Str ''x-y'')])
   \<and> (\<exists>fs'. merge_templates example_tagged_fs ''tagged.yaml'' [] ''out.yaml'' = (Inr (), fs')
         \<and> load_yaml fs' ''out.yaml'' = Inr (example_tagged, [Tagged ''!Sub'' (Str ''x-y'')]))
   \<and> construct_object (MappingNode ''!GetAtt'' [(str_node ''Name'', ScalarNode ''!Sub'' ''x-y'')])
       = Inr (Tagged ''!GetAtt'' (Dict [(''Name'', Tagged ''!Sub'' (Str ''x-y''))]))
   \<and> construct_object (represent_data False
         (Tagged ''!GetAtt'' (Dict [(''Name'', Tagged ''!Sub'' (Str ''x-y''))])))
       = Inr (Tagged ''!GetAtt'' (Dict [(''Name'', Tagged ''!Sub'' (Str ''x-y''))]))"
proof -
  have l: "load_yaml example_tagged_fs ''tagged.yaml''
     = Inr (example_tagged, [Tagged ''!Sub'' (Str ''x-y'')])" by code_simp
  have c: "construct_object (MappingNode ''!GetAtt'' [(str_node ''Name'', ScalarNode ''!Sub'' ''x-y'')])
       = Inr (Tagged ''!GetAtt'' (Dict [(''Name'', Tagged ''!Sub'' (Str ''x-y''))]))" by code_simp
  have t: "take 1 (node_tag (MappingNode ''!GetAtt'' [(str_node ''Name'', ScalarNode ''!Sub'' ''x-y'')]))
       = ''!''" by simp
  note rt = tag_round_trip[OF l, of "''out.yaml''"]
  from rt have "\<exists>fs'. merge_templates example_tagged_fs ''tagged.yaml'' [] ''out.yaml'' = (Inr (), fs')
         \<and> load_yaml fs' ''out.yaml'' = Inr (example_tagged, [Tagged ''!Sub'' (Str ''x-y'')])"
    by (rule conjunct1)
  moreover from rt t c have "construct_object (represent_data False
         (Tagged ''!GetAtt'' (Dict [(''Name'', Tagged ''!Sub'' (Str ''x-y''))])))
       = Inr (Tagged ''!GetAtt'' (Dict [(''Name'', Tagged ''!Sub'' (Str ''x-y''))]))" by blast
  ultimately show ?thesis using l c by blast
qed

section \<open>Runs that fail partway\<close>










text \<open>
  With an alias in the base, the error can name another item or be another error than
  the documents taken as trees suggest. In \<^verbatim>\<open>params.yaml\<close> the sections \<^verbatim>\<open>Parameters\<close>
  and \<^verbatim>\<open>Resources\<close> are the same dict, holding \<open>A\<close>: the item \<open>B\<close> that \<^verbatim>\<open>dup.yaml\<close> brings
  to \<^verbatim>\<open>Parameters\<close> is then found in \<^verbatim>\<open>Resources\<close>, before the item \<open>A\<close> is looked at.
  In \<^verbatim>\<open>conds.yaml\<close> the sections \<^verbatim>\<open>Parameters\<close> and \<^verbatim>\<open>Conditions\<close> are the same dict, and
  the collision at \<^verbatim>\<open>Conditions\<close> comes before the string under \<^verbatim>\<open>Resources\<close>.
\<close>

lemma shared_sections_collide:
  "fst (merge_templates shared_fs ''params.yaml'' [''dup.yaml''] ''out.yaml'')
     = Inl (DuplicateKeyError ''Resources'' ''B'' ''dup.yaml'')
   \<and> fst (merge_templates shared_fs ''conds.yaml'' [''text.yaml''] ''out.yaml'')
     = Inl (DuplicateKeyError ''Conditions'' ''B'' ''text.yaml'')"
  by code_simp

text \<open>
  The sections of the base are never checked. A base whose \<open>Parameters\<close> is a string is
  merged and written out when no fragment has that section; when a fragment has it, the
  run ends in a TypeError, or in a DuplicateKeyError for an item name that is a
  substring of the string.
\<close>

theorem base_section_not_checked:
  "load_yaml unchecked_fs ''base.yaml''
     = Inr ([(''Parameters'', Str ''oops''), (''Resources'', Dict [(''A'', Str ''a'')])], [])
   \<and> fst (merge_templates unchecked_fs ''base.yaml'' [''f.yaml''] ''out.yaml'') = Inr ()
   \<and> snd (merge_templates unchecked_fs ''base.yaml'' [''f.yaml''] ''out.yaml'') ''out.yaml''
     = Some (Some ([], map_node
         [(''Parameters'', str_node ''oops''),
          (''Resources'', map_node [(''A'', str_node ''a''), (''B'', str_node ''b'')])]))
   \<and> fst (merge_templates unchecked_fs ''base.yaml'' [''g.yaml''] ''out.yaml'') = Inl TypeError
   \<and> fst (merge_templates unchecked_fs ''base.yaml'' [''h.yaml''] ''out.yaml'')
     = Inl (DuplicateKeyError ''Parameters'' ''oo'' ''h.yaml'')"
  by code_simp

text \<open>
  Claim C4 (root must be a mapping), evaluated where it fails: \<^verbatim>\<open>or {}\<close> replaces every
  false root by the empty mapping, so a document that is an empty sequence, an empty
  string or null loads as the empty mapping, like a file without a document; a
  sequence or a string that is not empty is refused.
\<close>

theorem load_accepts_false_roots:
  "load_yaml falsy_fs ''empty.yaml'' = Inr ([], [])
   \<and> load_yaml falsy_fs ''list.yaml'' = Inr ([], [])
   \<and> load_yaml falsy_fs ''string.yaml'' = Inr ([], [])
   \<and> load_yaml falsy_fs ''null.yaml'' = Inr ([], [])
   \<and> load_yaml falsy_fs ''items.yaml'' = Inl (LoadError ''items.yaml'')
   \<and> load_yaml falsy_fs ''text.yaml'' = Inl (LoadError ''text.yaml'')"
  by code_simp



end
